theory Spec2Isabelle
  imports Main "HOL-Library.AList" "HOL-Library.Sublist"
begin

section \<open>The Axiom chat relay (axiom\_server.py)\<close>

text \<open>
  The server has two routes. \<open>get_root\<close> serves the entry page, \<open>chat_with_axiom\<close>
  relays one chat request to the Ollama backend. Both are embedded below as functions of
  their input and of the part of the world they read: the file system for \<open>get_root\<close>,
  the outcome of \<open>requests.post\<close> for \<open>chat_with_axiom\<close>. The \<open>print\<close> calls of the
  handler write to the log only and are left out.
\<close>

subsection \<open>Data\<close>

text \<open>
  JSON values as Python holds them after decoding. A \<open>dict\<close> is an association list in
  insertion order. Strings are UTF-8 byte sequences, as they travel in the HTTP bodies.
  The handler never inspects a number, so numbers are kept as integers.
\<close>

datatype json =
    JNull
  | JBool bool
  | JNum int
  | JStr string
  | JArr "json list"
  | JObj "(string \<times> json) list"

text \<open>\<open>class ChatRequest(BaseModel)\<close>, lines 31 to 34, after validation.\<close>

record ChatRequest =
  request_text :: string
  request_image :: "string option"
  request_history :: "json list"

text \<open>The dictionary returned by the handler, lines 92 and 96.\<close>

record ChatResponse =
  response :: json
  history :: "json list"

text \<open>
  The exceptions that can travel through the handler, each with the text \<open>str(e)\<close>.
  \<open>ConnectionError\<close>, \<open>Timeout\<close>, \<open>HTTPError\<close> and \<open>InvalidJSONError\<close> are subclasses of
  \<open>requests.exceptions.RequestException\<close>; \<open>ValueError\<close> and \<open>AttributeError\<close> are not.
\<close>

datatype exn =
    ConnectionError string
  | Timeout string
  | HTTPError string
  | InvalidJSONError string
  | ValueError string
  | AttributeError string

fun is_RequestException :: "exn \<Rightarrow> bool" where
  "is_RequestException (ConnectionError m) = True"
| "is_RequestException (Timeout m) = True"
| "is_RequestException (HTTPError m) = True"
| "is_RequestException (InvalidJSONError m) = True"
| "is_RequestException (ValueError m) = False"
| "is_RequestException (AttributeError m) = False"

fun str :: "exn \<Rightarrow> string" where
  "str (ConnectionError m) = m"
| "str (Timeout m) = m"
| "str (HTTPError m) = m"
| "str (InvalidJSONError m) = m"
| "str (ValueError m) = m"
| "str (AttributeError m) = m"

text \<open>
  The object returned by \<open>requests.post\<close>, as far as the handler uses it: the status
  code, the reason phrase and the URL read by \<open>raise_for_status()\<close>, and what \<open>json()\<close>
  raises or returns.
\<close>

record BackendResponse =
  status_code :: nat
  reason :: string
  url :: string
  json_result :: "exn + json"

text \<open>One call of \<open>requests.post(url, json=payload, timeout=t)\<close> and the world answering it.\<close>

type_synonym call = "string \<times> json \<times> nat"

type_synonym backend = "call \<Rightarrow> exn + BackendResponse"

subsection \<open>Configuration, lines 13 to 15\<close>

definition OLLAMA_API_URL :: string where
  "OLLAMA_API_URL = ''http://localhost:11434/api/chat''"

definition TEXT_MODEL_NAME :: string where
  "TEXT_MODEL_NAME = ''llama3:8b''"

definition VISION_MODEL_NAME :: string where
  "VISION_MODEL_NAME = ''llava''"

subsection \<open>Python primitives used by the handler\<close>

text \<open>\<open>d.get(key, default)\<close> on a dict.\<close>

definition dict_get :: "(string \<times> json) list \<Rightarrow> string \<Rightarrow> json \<Rightarrow> json" where
  "dict_get d key dflt = (case map_of d key of Some v \<Rightarrow> v | None \<Rightarrow> dflt)"

text \<open>
  \<open>x.get(key, default)\<close> on a decoded JSON value: only a dict has the method, every
  other value raises \<open>AttributeError\<close>, whose text names the type of the value.
\<close>

fun type_name :: "json \<Rightarrow> string" where
  "type_name JNull = ''NoneType''"
| "type_name (JBool b) = ''bool''"
| "type_name (JNum n) = ''int''"
| "type_name (JStr s) = ''str''"
| "type_name (JArr xs) = ''list''"
| "type_name (JObj d) = ''dict''"

definition no_attribute :: "json \<Rightarrow> string \<Rightarrow> exn" where
  "no_attribute x name =
     AttributeError ([CHR 0x27] @ type_name x @ [CHR 0x27] @
       '' object has no attribute '' @ [CHR 0x27] @ name @ [CHR 0x27])"

fun py_get :: "json \<Rightarrow> string \<Rightarrow> json \<Rightarrow> exn + json" where
  "py_get (JObj d) key dflt = Inr (dict_get d key dflt)"
| "py_get JNull key dflt = Inl (no_attribute JNull ''get'')"
| "py_get (JBool b) key dflt = Inl (no_attribute (JBool b) ''get'')"
| "py_get (JNum n) key dflt = Inl (no_attribute (JNum n) ''get'')"
| "py_get (JStr s) key dflt = Inl (no_attribute (JStr s) ''get'')"
| "py_get (JArr xs) key dflt = Inl (no_attribute (JArr xs) ''get'')"

text \<open>A natural number in decimal, as an f-string prints it.\<close>

fun decimal :: "nat \<Rightarrow> string" where
  "decimal n =
     (if n < 10 then [''0123456789'' ! n]
      else decimal (n div 10) @ [''0123456789'' ! (n mod 10)])"

declare decimal.simps [simp del]

text \<open>
  \<open>response.raise_for_status()\<close>, line 84. The library raises \<open>HTTPError\<close> for the
  status codes 400 to 599 and returns for every other code.
\<close>

definition http_error_msg :: "BackendResponse \<Rightarrow> string" where
  "http_error_msg r =
     (if 400 \<le> status_code r \<and> status_code r < 500
      then decimal (status_code r) @ '' Client Error: '' @ reason r @ '' for url: '' @ url r
      else if 500 \<le> status_code r \<and> status_code r < 600
      then decimal (status_code r) @ '' Server Error: '' @ reason r @ '' for url: '' @ url r
      else [])"

definition raise_for_status :: "BackendResponse \<Rightarrow> exn + unit" where
  "raise_for_status r =
     (if http_error_msg r \<noteq> [] then Inl (HTTPError (http_error_msg r)) else Inr ())"

subsection \<open>The chat route, lines 53 to 96\<close>

text \<open>
  Lines 59 to 69: the model name and the new user message. \<open>if request.image\<close> is
  Python truthiness: \<open>None\<close> and the empty string are both false.
\<close>

definition select_model :: "ChatRequest \<Rightarrow> string \<times> (string \<times> json) list" where
  "select_model request =
     (let current_model = TEXT_MODEL_NAME;
          user_message = [(''role'', JStr ''user''), (''content'', JStr (request_text request))]
      in case request_image request of
           None \<Rightarrow> (current_model, user_message)
         | Some img \<Rightarrow>
             if img \<noteq> []
             then (VISION_MODEL_NAME, AList.update ''images'' (JArr [JStr img]) user_message)
             else (current_model, user_message))"

definition current_model :: "ChatRequest \<Rightarrow> string" where
  "current_model request = fst (select_model request)"

definition user_message :: "ChatRequest \<Rightarrow> (string \<times> json) list" where
  "user_message request = snd (select_model request)"

text \<open>Line 71: the history after \<open>conversation_history.append(user_message)\<close>.\<close>

definition appended_history :: "ChatRequest \<Rightarrow> json list" where
  "appended_history request = request_history request @ [JObj (user_message request)]"

text \<open>Lines 74 to 78 and the arguments of line 83.\<close>

definition payload :: "ChatRequest \<Rightarrow> json" where
  "payload request =
     JObj [(''model'', JStr (current_model request)),
           (''messages'', JArr (appended_history request)),
           (''stream'', JBool False)]"

definition chat_call :: "ChatRequest \<Rightarrow> call" where
  "chat_call request = (OLLAMA_API_URL, payload request, 180)"

text \<open>
  Lines 83 to 92, the body of \<open>try\<close>, given what \<open>requests.post\<close> did. The list
  \<open>conversation_history\<close> is mutated in place, so an exception leaves the block together
  with the list as it stands when it is raised.
\<close>

definition try_block ::
  "exn + BackendResponse \<Rightarrow> json list \<Rightarrow> (exn \<times> json list) + ChatResponse" where
  "try_block posted conversation_history =
     (case posted of
        Inl e \<Rightarrow> Inl (e, conversation_history)
      | Inr resp \<Rightarrow>
     (case raise_for_status resp of
        Inl e \<Rightarrow> Inl (e, conversation_history)
      | Inr _ \<Rightarrow>
     (case json_result resp of
        Inl e \<Rightarrow> Inl (e, conversation_history)
      | Inr response_json \<Rightarrow>
     (case py_get response_json ''message'' (JObj []) of
        Inl e \<Rightarrow> Inl (e, conversation_history)
      | Inr assistant_message \<Rightarrow>
     (let conversation_history = conversation_history @ [assistant_message]
      in case py_get assistant_message ''content'' (JStr []) of
           Inl e \<Rightarrow> Inl (e, conversation_history)
         | Inr content \<Rightarrow>
             Inr \<lparr>response = content, history = conversation_history\<rparr>)))))"

text \<open>The fixed part of the message of line 96.\<close>

definition APOLOGY :: string where
  "APOLOGY =
     ''D'' @ [CHR 0xC3, CHR 0xA9] @ ''sol'' @ [CHR 0xC3, CHR 0xA9] @
     '', une erreur est survenue en contactant le moteur Axiom. D'' @
     [CHR 0xC3, CHR 0xA9] @ ''tails: ''"

text \<open>Lines 82 to 96: the \<open>try\<close> statement with its handler of \<open>RequestException\<close>.\<close>

definition try_except :: "exn + BackendResponse \<Rightarrow> json list \<Rightarrow> exn + ChatResponse" where
  "try_except posted conversation_history =
     (case try_block posted conversation_history of
        Inr answer \<Rightarrow> Inr answer
      | Inl (e, conversation_history) \<Rightarrow>
          if is_RequestException e
          then Inr \<lparr>response = JStr (APOLOGY @ str e), history = conversation_history\<rparr>
          else Inl e)"

text \<open>
  The handler. It returns its answer, or the exception that leaves it (FastAPI then
  answers with a server error), together with the calls made to the backend.
\<close>

definition chat_with_axiom ::
  "backend \<Rightarrow> ChatRequest \<Rightarrow> (exn + ChatResponse) \<times> call list" where
  "chat_with_axiom requests_post request =
     (let conversation_history = appended_history request;
          posted = requests_post (chat_call request)
      in (try_except posted conversation_history, [chat_call request]))"

definition chat_result :: "backend \<Rightarrow> ChatRequest \<Rightarrow> exn + ChatResponse" where
  "chat_result requests_post request = fst (chat_with_axiom requests_post request)"

definition chat_sent :: "backend \<Rightarrow> ChatRequest \<Rightarrow> call list" where
  "chat_sent requests_post request = snd (chat_with_axiom requests_post request)"

subsection \<open>Paths through the try statement\<close>

text \<open>
  The call is caught by line 94 when \<open>requests.post\<close> raises a \<open>RequestException\<close>
  (connection error, timeout) or when the backend answers with a status code from 400
  to 599, for which \<open>raise_for_status\<close> raises.
\<close>

definition call_failed :: "exn + BackendResponse \<Rightarrow> bool" where
  "call_failed posted =
     (case posted of
        Inl e \<Rightarrow> is_RequestException e
      | Inr resp \<Rightarrow> 400 \<le> status_code resp \<and> status_code resp < 600)"

text \<open>
  The call runs to line 92 when the backend answers with a status code outside 400 to
  599 and a body that decodes to a JSON object whose \<open>message\<close> member, when there is
  one, is a JSON object.
\<close>

definition call_answered :: "exn + BackendResponse \<Rightarrow> bool" where
  "call_answered posted =
     (case posted of
        Inl e \<Rightarrow> False
      | Inr resp \<Rightarrow>
          if 400 \<le> status_code resp \<and> status_code resp < 600 then False
          else
            (case json_result resp of
               Inr (JObj response_json) \<Rightarrow>
                 (case map_of response_json ''message'' of
                    None \<Rightarrow> True
                  | Some (JObj assistant_message) \<Rightarrow> True
                  | Some _ \<Rightarrow> False)
             | _ \<Rightarrow> False))"

text \<open>A member of the payload of a call.\<close>

definition payload_member :: "string \<Rightarrow> call \<Rightarrow> json option" where
  "payload_member key c = (case fst (snd c) of JObj d \<Rightarrow> map_of d key | _ \<Rightarrow> None)"

subsection \<open>The root route, lines 45 to 50\<close>

text \<open>
  A Starlette response as the handler builds it: \<open>HTMLResponse(content)\<close> carries an
  HTML document given inline, \<open>FileResponse(path)\<close> streams the file at \<open>path\<close>; both
  are built with the default status code 200.
\<close>

datatype body = Html string | File string

record HttpResponse =
  http_status :: nat
  body :: body

definition HTMLResponse :: "string \<Rightarrow> HttpResponse" where
  "HTMLResponse content = \<lparr>http_status = 200, body = Html content\<rparr>"

definition FileResponse :: "string \<Rightarrow> HttpResponse" where
  "FileResponse path = \<lparr>http_status = 200, body = File path\<rparr>"

definition NOT_FOUND_NOTICE :: string where
  "NOT_FOUND_NOTICE =
     ''<h1>Fichier index.html non trouv'' @ [CHR 0xC3, CHR 0xA9] @ ''.</h1>''"

text \<open>\<open>exists\<close> is \<open>os.path.exists\<close> on the working directory.\<close>

definition get_root :: "(string \<Rightarrow> bool) \<Rightarrow> HttpResponse" where
  "get_root exists =
     (if exists ''index.html'' then FileResponse ''index.html''
      else HTMLResponse NOT_FOUND_NOTICE)"

subsection \<open>Backends and requests of the scenarios\<close>

definition healthy_backend :: backend where
  "healthy_backend c =
     Inr \<lparr>status_code = 200, reason = ''OK'', url = OLLAMA_API_URL,
          json_result = Inr (JObj [(''message'',
            JObj [(''role'', JStr ''assistant''), (''content'', JStr ''hello'')])])\<rparr>"

definition unreachable_backend :: backend where
  "unreachable_backend c = Inl (ConnectionError ''Connection refused'')"

definition slow_backend :: backend where
  "slow_backend c = Inl (Timeout ''Read timed out. (read timeout=180)'')"

definition failing_backend :: backend where
  "failing_backend c =
     Inr \<lparr>status_code = 500, reason = ''Internal Server Error'', url = OLLAMA_API_URL,
          json_result = Inl (InvalidJSONError ''Expecting value'')\<rparr>"

definition bare_backend :: backend where
  "bare_backend c =
     Inr \<lparr>status_code = 200, reason = ''OK'', url = OLLAMA_API_URL,
          json_result = Inr (JObj [])\<rparr>"

definition null_message_backend :: backend where
  "null_message_backend c =
     Inr \<lparr>status_code = 200, reason = ''OK'', url = OLLAMA_API_URL,
          json_result = Inr (JObj [(''message'', JNull)])\<rparr>"

definition string_message_backend :: backend where
  "string_message_backend c =
     Inr \<lparr>status_code = 200, reason = ''OK'', url = OLLAMA_API_URL,
          json_result = Inr (JObj [(''message'', JStr ''hello'')])\<rparr>"

definition garbled_backend :: backend where
  "garbled_backend c =
     Inr \<lparr>status_code = 200, reason = ''OK'', url = OLLAMA_API_URL,
          json_result = Inl (InvalidJSONError ''Expecting value'')\<rparr>"

definition multiple_choices_backend :: backend where
  "multiple_choices_backend c =
     Inr \<lparr>status_code = 300, reason = ''Multiple Choices'', url = OLLAMA_API_URL,
          json_result = Inr (JObj [(''message'',
            JObj [(''role'', JStr ''assistant''), (''content'', JStr ''hello'')])])\<rparr>"

definition scenario_A :: ChatRequest where
  "scenario_A = \<lparr>request_text = ''hi'', request_image = None, request_history = []\<rparr>"

definition scenario_C :: ChatRequest where
  "scenario_C =
     \<lparr>request_text = ''describe'', request_image = Some ''AAAA'', request_history = []\<rparr>"

definition empty_image_request :: ChatRequest where
  "empty_image_request =
     \<lparr>request_text = ''hi'', request_image = Some [], request_history = []\<rparr>"

definition follow_up_request :: ChatRequest where
  "follow_up_request =
     \<lparr>request_text = ''again'', request_image = None,
      request_history =
        [JObj [(''role'', JStr ''user''), (''content'', JStr ''hi'')],
         JObj [(''role'', JStr ''assistant''), (''content'', JStr ''hello'')]]\<rparr>"

definition no_files :: "string \<Rightarrow> bool" where
  "no_files path = False"

definition only_index :: "string \<Rightarrow> bool" where
  "only_index path = (path = ''index.html'')"

section \<open>Properties\<close>

subsection \<open>What the handler computes\<close>

lemma select_model_image:
  "request_image request = Some img \<Longrightarrow> img \<noteq> [] \<Longrightarrow>
   select_model request =
     (VISION_MODEL_NAME,
      [(''role'', JStr ''user''), (''content'', JStr (request_text request)),
       (''images'', JArr [JStr img])])"
  by (simp add: select_model_def)

lemma select_model_no_image:
  "request_image request = None \<or> request_image request = Some [] \<Longrightarrow>
   select_model request =
     (TEXT_MODEL_NAME,
      [(''role'', JStr ''user''), (''content'', JStr (request_text request))])"
  by (auto simp add: select_model_def)

lemma user_message_image:
  "request_image request = Some img \<Longrightarrow> img \<noteq> [] \<Longrightarrow>
   user_message request =
     [(''role'', JStr ''user''), (''content'', JStr (request_text request)),
      (''images'', JArr [JStr img])]"
  by (simp add: user_message_def select_model_image)

lemma user_message_head:
  "take 2 (user_message request) =
     [(''role'', JStr ''user''), (''content'', JStr (request_text request))]"
  by (cases "request_image request")
     (simp_all add: user_message_def select_model_def Let_def)

lemma chat_sent_eq: "chat_sent requests_post request = [chat_call request]"
  by (simp add: chat_sent_def chat_with_axiom_def)

lemma chat_result_eq:
  "chat_result requests_post request =
     try_except (requests_post (chat_call request)) (appended_history request)"
  by (simp add: chat_result_def chat_with_axiom_def)

subsection \<open>The status check\<close>

lemma raise_for_status_error:
  "400 \<le> status_code r \<Longrightarrow> status_code r < 600 \<Longrightarrow>
   raise_for_status r = Inl (HTTPError (http_error_msg r))"
  by (simp add: raise_for_status_def http_error_msg_def)

lemma raise_for_status_ok:
  "\<not> (400 \<le> status_code r \<and> status_code r < 600) \<Longrightarrow> raise_for_status r = Inr ()"
  by (auto simp add: raise_for_status_def http_error_msg_def)

lemma py_get_raises: "py_get x key dflt = Inl e \<Longrightarrow> \<not> is_RequestException e"
  by (cases x) (auto simp add: no_attribute_def)

subsection \<open>Outcomes of the try statement\<close>

lemma try_except_post_raises:
  "posted = Inl e \<Longrightarrow> is_RequestException e \<Longrightarrow>
   try_except posted h = Inr \<lparr>response = JStr (APOLOGY @ str e), history = h\<rparr>"
  by (simp add: try_except_def try_block_def)

lemma try_except_status_raises:
  "posted = Inr resp \<Longrightarrow> 400 \<le> status_code resp \<Longrightarrow> status_code resp < 600 \<Longrightarrow>
   try_except posted h =
     Inr \<lparr>response = JStr (APOLOGY @ http_error_msg resp), history = h\<rparr>"
  by (simp add: try_except_def try_block_def raise_for_status_error)

lemma try_except_success:
  "posted = Inr resp \<Longrightarrow> \<not> (400 \<le> status_code resp \<and> status_code resp < 600) \<Longrightarrow>
   json_result resp = Inr (JObj response_json) \<Longrightarrow>
   dict_get response_json ''message'' (JObj []) = JObj assistant_message \<Longrightarrow>
   try_except posted h =
     Inr \<lparr>response = dict_get assistant_message ''content'' (JStr []),
          history = h @ [JObj assistant_message]\<rparr>"
  by (simp add: try_except_def try_block_def raise_for_status_ok)

text \<open>
  A decoded body, or a \<open>message\<close> member, that is not a dict has no \<open>get\<close>: the
  handler raises \<open>AttributeError\<close>, which line 94 does not catch.
\<close>

lemma try_except_body_not_dict:
  "posted = Inr resp \<Longrightarrow> \<not> (400 \<le> status_code resp \<and> status_code resp < 600) \<Longrightarrow>
   json_result resp = Inr response_json \<Longrightarrow> \<forall>d. response_json \<noteq> JObj d \<Longrightarrow>
   try_except posted h = Inl (no_attribute response_json ''get'')"
  by (cases response_json)
     (simp_all add: try_except_def try_block_def raise_for_status_ok no_attribute_def)

lemma try_except_message_not_dict:
  "posted = Inr resp \<Longrightarrow> \<not> (400 \<le> status_code resp \<and> status_code resp < 600) \<Longrightarrow>
   json_result resp = Inr (JObj response_json) \<Longrightarrow>
   dict_get response_json ''message'' (JObj []) = assistant_message \<Longrightarrow>
   \<forall>d. assistant_message \<noteq> JObj d \<Longrightarrow>
   try_except posted h = Inl (no_attribute assistant_message ''get'')"
  by (cases assistant_message)
     (simp_all add: try_except_def try_block_def raise_for_status_ok no_attribute_def)

lemma call_answered_cases:
  assumes "call_answered posted"
  obtains resp response_json where "posted = Inr resp"
    "\<not> (400 \<le> status_code resp \<and> status_code resp < 600)"
    "json_result resp = Inr (JObj response_json)"
    "map_of response_json ''message'' = None \<or>
     (\<exists>assistant_message. map_of response_json ''message'' = Some (JObj assistant_message))"
proof (cases posted)
  case (Inl e)
  with assms show ?thesis by (simp add: call_answered_def)
next
  case (Inr resp)
  note posted = this
  show ?thesis
  proof (cases "400 \<le> status_code resp \<and> status_code resp < 600")
    case True
    with assms posted show ?thesis by (simp add: call_answered_def)
  next
    case False
    note status = this
    show ?thesis
    proof (cases "json_result resp")
      case (Inl e)
      with assms posted status show ?thesis by (simp add: call_answered_def)
    next
      case (Inr decoded)
      note decoded = this
      show ?thesis
      proof (cases decoded)
        case (JObj response_json)
        have "map_of response_json ''message'' = None \<or>
          (\<exists>assistant_message. map_of response_json ''message'' = Some (JObj assistant_message))"
        proof (cases "map_of response_json ''message''")
          case None
          then show ?thesis by simp
        next
          case (Some v)
          with assms posted status decoded JObj show ?thesis
            by (cases v) (simp_all add: call_answered_def)
        qed
        with that posted status decoded JObj show ?thesis by simp
      qed (use assms posted status decoded in \<open>simp_all add: call_answered_def\<close>)
    qed
  qed
qed

lemma try_except_answered:
  assumes "call_answered posted"
  shows "\<exists>content assistant_message.
     try_except posted h = Inr \<lparr>response = content, history = h @ [JObj assistant_message]\<rparr>"
proof -
  from assms obtain resp response_json where
    r: "posted = Inr resp" "\<not> (400 \<le> status_code resp \<and> status_code resp < 600)"
       "json_result resp = Inr (JObj response_json)" and
    m: "map_of response_json ''message'' = None \<or>
     (\<exists>assistant_message. map_of response_json ''message'' = Some (JObj assistant_message))"
    by (rule call_answered_cases)
  from m obtain assistant_message where
    "dict_get response_json ''message'' (JObj []) = JObj assistant_message"
    by (auto simp add: dict_get_def)
  from try_except_success [OF r this] show ?thesis by blast
qed

lemma try_except_failed:
  assumes "call_failed posted"
  shows "\<exists>m. try_except posted h = Inr \<lparr>response = JStr (APOLOGY @ m), history = h\<rparr>"
proof (cases posted)
  case (Inl e)
  with assms have "is_RequestException e" by (simp add: call_failed_def)
  from try_except_post_raises [OF Inl this] show ?thesis by blast
next
  case (Inr resp)
  with assms have "400 \<le> status_code resp" "status_code resp < 600"
    by (simp_all add: call_failed_def)
  from try_except_status_raises [OF Inr this] show ?thesis by blast
qed

lemma try_block_history:
  "try_block posted h = Inr answer \<Longrightarrow> \<exists>a. history answer = h @ [a]"
  by (auto simp add: try_block_def Let_def split: sum.splits)

lemma try_block_raises_RequestException:
  "try_block posted h = Inl (e, h') \<Longrightarrow> is_RequestException e \<Longrightarrow> h' = h"
  by (auto simp add: try_block_def Let_def split: sum.splits dest: py_get_raises)

lemma try_except_history:
  assumes "try_except posted h = Inr answer"
  shows "history answer = h \<or> (\<exists>a. history answer = h @ [a])"
proof (cases "try_block posted h")
  case (Inr ok)
  with assms have "answer = ok" by (simp add: try_except_def)
  with try_block_history [OF Inr] show ?thesis by simp
next
  case (Inl raised)
  obtain e h' where raised: "raised = (e, h')" by (cases raised)
  with assms Inl have caught: "is_RequestException e"
    and answer: "answer = \<lparr>response = JStr (APOLOGY @ str e), history = h'\<rparr>"
    by (auto simp add: try_except_def split: if_splits)
  from Inl raised caught have "h' = h" by (auto dest: try_block_raises_RequestException)
  with answer show ?thesis by simp
qed

lemma chat_result_returns:
  assumes "call_answered (requests_post (chat_call request)) \<or>
           call_failed (requests_post (chat_call request))"
  shows "\<exists>answer. chat_result requests_post request = Inr answer"
proof -
  let ?posted = "requests_post (chat_call request)"
  from assms show ?thesis
  proof
    assume "call_answered ?posted"
    from try_except_answered [OF this, of "appended_history request"]
    show ?thesis by (auto simp add: chat_result_eq)
  next
    assume "call_failed ?posted"
    from try_except_failed [OF this, of "appended_history request"]
    show ?thesis by (auto simp add: chat_result_eq)
  qed
qed

lemma chat_result_history:
  assumes "chat_result requests_post request = Inr answer"
  shows "history answer = appended_history request \<or>
         (\<exists>a. history answer = appended_history request @ [a])"
  using assms by (intro try_except_history) (simp add: chat_result_eq)

subsection \<open>Runs of the handler\<close>

lemma run_healthy_A:
  "chat_result healthy_backend scenario_A =
     Inr \<lparr>response = JStr ''hello'',
          history = [JObj [(''role'', JStr ''user''), (''content'', JStr ''hi'')],
                     JObj [(''role'', JStr ''assistant''), (''content'', JStr ''hello'')]]\<rparr>"
  by (simp add: chat_result_def chat_with_axiom_def try_except_def try_block_def
      raise_for_status_def http_error_msg_def healthy_backend_def scenario_A_def
      appended_history_def user_message_def select_model_def dict_get_def)

lemma run_unreachable_A:
  "chat_result unreachable_backend scenario_A =
     Inr \<lparr>response = JStr (APOLOGY @ ''Connection refused''),
          history = [JObj [(''role'', JStr ''user''), (''content'', JStr ''hi'')]]\<rparr>"
  by (simp add: chat_result_def chat_with_axiom_def try_except_def try_block_def
      unreachable_backend_def scenario_A_def appended_history_def
      user_message_def select_model_def)

lemma scenario_A_fields:
  "request_history scenario_A = []" "request_text scenario_A = ''hi''"
  "request_image scenario_A = None"
  "user_message scenario_A = [(''role'', JStr ''user''), (''content'', JStr ''hi'')]"
  by (simp_all add: scenario_A_def user_message_def select_model_def)

lemma run_unreachable_C:
  "chat_result unreachable_backend scenario_C =
     Inr \<lparr>response = JStr (APOLOGY @ ''Connection refused''),
          history = [JObj [(''role'', JStr ''user''), (''content'', JStr ''describe''),
                           (''images'', JArr [JStr ''AAAA''])]]\<rparr>"
  by (simp add: chat_result_def chat_with_axiom_def try_except_def try_block_def
      unreachable_backend_def scenario_C_def appended_history_def
      user_message_def select_model_def)

lemma run_healthy_C:
  "chat_result healthy_backend scenario_C =
     Inr \<lparr>response = JStr ''hello'',
          history = [JObj [(''role'', JStr ''user''), (''content'', JStr ''describe''),
                           (''images'', JArr [JStr ''AAAA''])],
                     JObj [(''role'', JStr ''assistant''), (''content'', JStr ''hello'')]]\<rparr>"
  by (simp add: chat_result_def chat_with_axiom_def try_except_def try_block_def
      raise_for_status_def http_error_msg_def healthy_backend_def scenario_C_def
      appended_history_def user_message_def select_model_def dict_get_def)

lemma run_healthy_follow_up:
  "chat_result healthy_backend follow_up_request =
     Inr \<lparr>response = JStr ''hello'',
          history = [JObj [(''role'', JStr ''user''), (''content'', JStr ''hi'')],
                     JObj [(''role'', JStr ''assistant''), (''content'', JStr ''hello'')],
                     JObj [(''role'', JStr ''user''), (''content'', JStr ''again'')],
                     JObj [(''role'', JStr ''assistant''), (''content'', JStr ''hello'')]]\<rparr>"
  by (simp add: chat_result_def chat_with_axiom_def try_except_def try_block_def
      raise_for_status_def http_error_msg_def healthy_backend_def follow_up_request_def
      appended_history_def user_message_def select_model_def dict_get_def)

lemma run_unreachable_follow_up:
  "chat_result unreachable_backend follow_up_request =
     Inr \<lparr>response = JStr (APOLOGY @ ''Connection refused''),
          history = [JObj [(''role'', JStr ''user''), (''content'', JStr ''hi'')],
                     JObj [(''role'', JStr ''assistant''), (''content'', JStr ''hello'')],
                     JObj [(''role'', JStr ''user''), (''content'', JStr ''again'')]]\<rparr>"
  by (simp add: chat_result_def chat_with_axiom_def try_except_def try_block_def
      unreachable_backend_def follow_up_request_def appended_history_def
      user_message_def select_model_def)

subsection \<open>Scenario A\<close>

text \<open>
  Claim C7. For the request with text "hi" and empty history, and a healthy backend
  answering with the message of role "assistant" and content "hello", the handler returns
  the response "hello" and the history made of the user turn followed by the assistant
  turn.
\<close>

theorem scenario_A_response:
  "chat_result healthy_backend scenario_A =
     Inr \<lparr>response = JStr ''hello'',
          history = [JObj [(''role'', JStr ''user''), (''content'', JStr ''hi'')],
                     JObj [(''role'', JStr ''assistant''), (''content'', JStr ''hello'')]]\<rparr>"
  by (simp add: chat_result_def chat_with_axiom_def try_except_def try_block_def
      raise_for_status_def http_error_msg_def healthy_backend_def scenario_A_def
      appended_history_def user_message_def select_model_def dict_get_def)

subsection \<open>Growth of the history\<close>

text \<open>
  Claim C1, as stated, promises a returned history with 2 more entries whenever the
  backend call succeeds and 1 more entry whenever it fails. For the request of scenario
  A, with empty history and non-empty text: a backend answering 200 with the body
  \<open>{"message": null}\<close> makes the handler raise \<open>AttributeError\<close>, so no history is
  returned; a backend answering 200 with a body that \<open>json()\<close> cannot decode gives 1
  more entry; and a backend answering 300, for which \<open>raise_for_status\<close> does not
  raise, gives 2 more entries.
\<close>

theorem success_without_two_turns:
  "request_history scenario_A = [] \<and> request_text scenario_A \<noteq> [] \<and>
   null_message_backend (chat_call scenario_A) =
     Inr \<lparr>status_code = 200, reason = ''OK'', url = OLLAMA_API_URL,
          json_result = Inr (JObj [(''message'', JNull)])\<rparr> \<and>
   chat_result null_message_backend scenario_A =
     Inl (AttributeError ([CHR 0x27] @ ''NoneType'' @ [CHR 0x27] @
       '' object has no attribute '' @ [CHR 0x27] @ ''get'' @ [CHR 0x27])) \<and>
   garbled_backend (chat_call scenario_A) =
     Inr \<lparr>status_code = 200, reason = ''OK'', url = OLLAMA_API_URL,
          json_result = Inl (InvalidJSONError ''Expecting value'')\<rparr> \<and>
   chat_result garbled_backend scenario_A =
     Inr \<lparr>response = JStr (APOLOGY @ ''Expecting value''),
          history = [JObj [(''role'', JStr ''user''), (''content'', JStr ''hi'')]]\<rparr> \<and>
   multiple_choices_backend (chat_call scenario_A) =
     Inr \<lparr>status_code = 300, reason = ''Multiple Choices'', url = OLLAMA_API_URL,
          json_result = Inr (JObj [(''message'',
            JObj [(''role'', JStr ''assistant''), (''content'', JStr ''hello'')])])\<rparr> \<and>
   chat_result multiple_choices_backend scenario_A =
     Inr \<lparr>response = JStr ''hello'',
          history = [JObj [(''role'', JStr ''user''), (''content'', JStr ''hi'')],
                     JObj [(''role'', JStr ''assistant''), (''content'', JStr ''hello'')]]\<rparr>"
  by (simp add: chat_result_def chat_with_axiom_def try_except_def try_block_def
      raise_for_status_def http_error_msg_def null_message_backend_def garbled_backend_def
      multiple_choices_backend_def scenario_A_def appended_history_def user_message_def
      select_model_def dict_get_def no_attribute_def)

text \<open>
  Claim C1, amended. For a request with empty history and non-empty text, the returned
  history has exactly 2 more entries than the input history, the new user turn followed
  by the message of the backend, when the backend answers with a 2xx status and a JSON
  object whose \<open>message\<close> member is absent or a JSON object; it has exactly 1 more
  entry, the user turn alone, when \<open>requests.post\<close> raises a \<open>RequestException\<close> or the
  backend answers with a status from 400 to 599. In both cases the handler returns. The
  user turn starts with the role "user" and the text of the request as content.
\<close>

theorem chat_history_growth:
  assumes "request_history request = []" and "request_text request \<noteq> []"
  shows "(\<forall>resp response_json.
            requests_post (chat_call request) = Inr resp \<and>
            200 \<le> status_code resp \<and> status_code resp < 300 \<and>
            json_result resp = Inr (JObj response_json) \<and>
            (map_of response_json ''message'' = None \<or>
             (\<exists>assistant_message.
                map_of response_json ''message'' = Some (JObj assistant_message))) \<longrightarrow>
            (\<exists>answer.
               chat_result requests_post request = Inr answer \<and>
               length (history answer) = length (request_history request) + 2 \<and>
               history answer =
                 [JObj (user_message request),
                  dict_get response_json ''message'' (JObj [])])) \<and>
         (call_failed (requests_post (chat_call request)) \<longrightarrow>
            (\<exists>answer.
               chat_result requests_post request = Inr answer \<and>
               length (history answer) = length (request_history request) + 1 \<and>
               history answer = [JObj (user_message request)])) \<and>
         take 2 (user_message request) =
           [(''role'', JStr ''user''), (''content'', JStr (request_text request))]"
proof (intro conjI allI impI)
  fix resp response_json
  assume a: "requests_post (chat_call request) = Inr resp \<and>
            200 \<le> status_code resp \<and> status_code resp < 300 \<and>
            json_result resp = Inr (JObj response_json) \<and>
            (map_of response_json ''message'' = None \<or>
             (\<exists>assistant_message.
                map_of response_json ''message'' = Some (JObj assistant_message)))"
  then have posted: "requests_post (chat_call request) = Inr resp"
    and status: "\<not> (400 \<le> status_code resp \<and> status_code resp < 600)"
    and decoded: "json_result resp = Inr (JObj response_json)"
    by simp_all
  from a obtain assistant_message where
    m: "dict_get response_json ''message'' (JObj []) = JObj assistant_message"
    by (auto simp add: dict_get_def)
  from try_except_success [OF posted status decoded m, of "appended_history request"]
    assms(1) m
  show "\<exists>answer.
          chat_result requests_post request = Inr answer \<and>
          length (history answer) = length (request_history request) + 2 \<and>
          history answer =
            [JObj (user_message request), dict_get response_json ''message'' (JObj [])]"
    by (simp add: chat_result_eq appended_history_def)
next
  assume "call_failed (requests_post (chat_call request))"
  from try_except_failed [OF this, of "appended_history request"] assms(1)
  show "\<exists>answer.
          chat_result requests_post request = Inr answer \<and>
          length (history answer) = length (request_history request) + 1 \<and>
          history answer = [JObj (user_message request)]"
    by (auto simp add: chat_result_eq appended_history_def)
next
  show "take 2 (user_message request) =
          [(''role'', JStr ''user''), (''content'', JStr (request_text request))]"
    by (rule user_message_head)
qed

theorem chat_history_growth_witness:
  "request_history scenario_A = [] \<and> request_text scenario_A \<noteq> [] \<and>
   healthy_backend (chat_call scenario_A) =
     Inr \<lparr>status_code = 200, reason = ''OK'', url = OLLAMA_API_URL,
          json_result = Inr (JObj [(''message'',
            JObj [(''role'', JStr ''assistant''), (''content'', JStr ''hello'')])])\<rparr> \<and>
   (\<exists>answer. chat_result healthy_backend scenario_A = Inr answer \<and>
      length (history answer) = 2 \<and>
      history answer =
        [JObj [(''role'', JStr ''user''), (''content'', JStr ''hi'')],
         JObj [(''role'', JStr ''assistant''), (''content'', JStr ''hello'')]]) \<and>
   call_failed (unreachable_backend (chat_call scenario_A)) \<and>
   (\<exists>answer. chat_result unreachable_backend scenario_A = Inr answer \<and>
      length (history answer) = 1 \<and>
      history answer = [JObj [(''role'', JStr ''user''), (''content'', JStr ''hi'')]])"
proof -
  have h: "request_history scenario_A = []" "request_text scenario_A \<noteq> []"
    by (simp_all add: scenario_A_def)
  have p: "healthy_backend (chat_call scenario_A) =
     Inr \<lparr>status_code = 200, reason = ''OK'', url = OLLAMA_API_URL,
          json_result = Inr (JObj [(''message'',
            JObj [(''role'', JStr ''assistant''), (''content'', JStr ''hello'')])])\<rparr>"
    by (simp add: healthy_backend_def)
  have f: "call_failed (unreachable_backend (chat_call scenario_A))"
    by (simp add: call_failed_def unreachable_backend_def)
  note g = chat_history_growth [OF h, where requests_post = healthy_backend]
  note b = chat_history_growth [OF h, where requests_post = unreachable_backend]
  from g [THEN conjunct1, THEN spec, THEN spec, THEN mp, of
      "\<lparr>status_code = 200, reason = ''OK'', url = OLLAMA_API_URL,
          json_result = Inr (JObj [(''message'',
            JObj [(''role'', JStr ''assistant''), (''content'', JStr ''hello'')])])\<rparr>"
      "[(''message'', JObj [(''role'', JStr ''assistant''), (''content'', JStr ''hello'')])]"]
    p
  have 1: "\<exists>answer. chat_result healthy_backend scenario_A = Inr answer \<and>
      length (history answer) = 2 \<and>
      history answer =
        [JObj [(''role'', JStr ''user''), (''content'', JStr ''hi'')],
         JObj [(''role'', JStr ''assistant''), (''content'', JStr ''hello'')]]"
    by (auto simp add: scenario_A_fields dict_get_def)
  from b [THEN conjunct2, THEN conjunct1, THEN mp, OF f]
  have 2: "\<exists>answer. chat_result unreachable_backend scenario_A = Inr answer \<and>
      length (history answer) = 1 \<and>
      history answer = [JObj [(''role'', JStr ''user''), (''content'', JStr ''hi'')]]"
    by (auto simp add: scenario_A_fields)
  from h p f 1 2 show ?thesis by blast
qed

subsection \<open>Failure of the backend\<close>

text \<open>
  Claim C2, as stated, counts every non-2xx status as a failure that yields the
  apology and no assistant turn. \<open>raise_for_status\<close> raises only for the codes 400 to
  599: when the backend answers 300 with a message, the handler takes the success path,
  returns the content of the message and appends the assistant turn.
\<close>

theorem status_300_is_not_caught:
  "multiple_choices_backend (chat_call follow_up_request) =
     Inr \<lparr>status_code = 300, reason = ''Multiple Choices'', url = OLLAMA_API_URL,
          json_result = Inr (JObj [(''message'',
            JObj [(''role'', JStr ''assistant''), (''content'', JStr ''hello'')])])\<rparr> \<and>
   chat_result multiple_choices_backend follow_up_request =
     Inr \<lparr>response = JStr ''hello'',
          history = [JObj [(''role'', JStr ''user''), (''content'', JStr ''hi'')],
                     JObj [(''role'', JStr ''assistant''), (''content'', JStr ''hello'')],
                     JObj [(''role'', JStr ''user''), (''content'', JStr ''again'')],
                     JObj [(''role'', JStr ''assistant''), (''content'', JStr ''hello'')]]\<rparr>"
  by (simp add: chat_result_def chat_with_axiom_def try_except_def try_block_def
      raise_for_status_def http_error_msg_def multiple_choices_backend_def
      follow_up_request_def appended_history_def user_message_def select_model_def
      dict_get_def)

text \<open>
  Claim C2, amended. When the backend call fails by a connection error or a timeout
  raised by \<open>requests.post\<close>, or by an HTTP error status from 400 to 599, for which
  \<open>raise_for_status\<close> raises, the handler does not raise: it returns the apology of line 96
  (sorry, an error occurred while contacting the Axiom engine, details), spelled out
  below byte for byte, followed by the text of the error, with the history as it stood after the user turn
  was appended and no assistant turn. The three kinds of failure give the same answer
  for the same error text.
\<close>

theorem chat_failure_reply:
  assumes "requests_post (chat_call request) = Inl (ConnectionError m) \<or>
           requests_post (chat_call request) = Inl (Timeout m) \<or>
           (\<exists>resp. requests_post (chat_call request) = Inr resp \<and>
                   400 \<le> status_code resp \<and> status_code resp < 600 \<and>
                   m = http_error_msg resp)"
  shows "chat_result requests_post request =
           Inr \<lparr>response =
                  JStr (''D'' @ [CHR 0xC3, CHR 0xA9] @ ''sol'' @ [CHR 0xC3, CHR 0xA9] @
                    '', une erreur est survenue en contactant le moteur Axiom. D'' @
                    [CHR 0xC3, CHR 0xA9] @ ''tails: '' @ m),
                history = request_history request @ [JObj (user_message request)]\<rparr>"
proof -
  have "try_except (requests_post (chat_call request)) (appended_history request) =
          Inr \<lparr>response = JStr (APOLOGY @ m), history = appended_history request\<rparr>"
    using assms
    by (auto simp add: try_except_post_raises try_except_status_raises)
  then show ?thesis by (simp add: chat_result_eq appended_history_def APOLOGY_def)
qed

theorem chat_failure_reply_witness:
  "chat_result unreachable_backend scenario_A =
     Inr \<lparr>response =
            JStr (''D'' @ [CHR 0xC3, CHR 0xA9] @ ''sol'' @ [CHR 0xC3, CHR 0xA9] @
                    '', une erreur est survenue en contactant le moteur Axiom. D'' @
                    [CHR 0xC3, CHR 0xA9] @ ''tails: '' @ ''Connection refused''),
          history = [JObj [(''role'', JStr ''user''), (''content'', JStr ''hi'')]]\<rparr> \<and>
   chat_result slow_backend scenario_A =
     Inr \<lparr>response =
            JStr (''D'' @ [CHR 0xC3, CHR 0xA9] @ ''sol'' @ [CHR 0xC3, CHR 0xA9] @
                    '', une erreur est survenue en contactant le moteur Axiom. D'' @
                    [CHR 0xC3, CHR 0xA9] @ ''tails: '' @ ''Read timed out. (read timeout=180)''),
          history = [JObj [(''role'', JStr ''user''), (''content'', JStr ''hi'')]]\<rparr> \<and>
   chat_result failing_backend scenario_A =
     Inr \<lparr>response =
            JStr (''D'' @ [CHR 0xC3, CHR 0xA9] @ ''sol'' @ [CHR 0xC3, CHR 0xA9] @
                    '', une erreur est survenue en contactant le moteur Axiom. D'' @
                    [CHR 0xC3, CHR 0xA9] @ ''tails: '' @
                  ''500 Server Error: Internal Server Error for url: '' @
                  ''http://localhost:11434/api/chat''),
          history = [JObj [(''role'', JStr ''user''), (''content'', JStr ''hi'')]]\<rparr>"
proof -
  have "unreachable_backend (chat_call scenario_A) =
      Inl (ConnectionError ''Connection refused'')"
    by (simp add: unreachable_backend_def)
  then have a: "chat_result unreachable_backend scenario_A =
     Inr \<lparr>response =
            JStr (''D'' @ [CHR 0xC3, CHR 0xA9] @ ''sol'' @ [CHR 0xC3, CHR 0xA9] @
                    '', une erreur est survenue en contactant le moteur Axiom. D'' @
                    [CHR 0xC3, CHR 0xA9] @ ''tails: '' @ ''Connection refused''),
          history = request_history scenario_A @ [JObj (user_message scenario_A)]\<rparr>"
    by (intro chat_failure_reply) simp
  have "slow_backend (chat_call scenario_A) =
      Inl (Timeout ''Read timed out. (read timeout=180)'')"
    by (simp add: slow_backend_def)
  then have b: "chat_result slow_backend scenario_A =
     Inr \<lparr>response =
            JStr (''D'' @ [CHR 0xC3, CHR 0xA9] @ ''sol'' @ [CHR 0xC3, CHR 0xA9] @
                    '', une erreur est survenue en contactant le moteur Axiom. D'' @
                    [CHR 0xC3, CHR 0xA9] @ ''tails: '' @ ''Read timed out. (read timeout=180)''),
          history = request_history scenario_A @ [JObj (user_message scenario_A)]\<rparr>"
    by (intro chat_failure_reply) simp
  have "\<exists>resp. failing_backend (chat_call scenario_A) = Inr resp \<and>
          400 \<le> status_code resp \<and> status_code resp < 600 \<and>
          ''500 Server Error: Internal Server Error for url: '' @
          ''http://localhost:11434/api/chat'' = http_error_msg resp"
    by (simp add: failing_backend_def http_error_msg_def decimal.simps OLLAMA_API_URL_def)
  then have c: "chat_result failing_backend scenario_A =
     Inr \<lparr>response =
            JStr (''D'' @ [CHR 0xC3, CHR 0xA9] @ ''sol'' @ [CHR 0xC3, CHR 0xA9] @
                    '', une erreur est survenue en contactant le moteur Axiom. D'' @
                    [CHR 0xC3, CHR 0xA9] @ ''tails: '' @
                  ''500 Server Error: Internal Server Error for url: '' @
                  ''http://localhost:11434/api/chat''),
          history = request_history scenario_A @ [JObj (user_message scenario_A)]\<rparr>"
    by (intro chat_failure_reply) simp
  from a b c show ?thesis by (simp add: scenario_A_fields)
qed

subsection \<open>Choice of the model\<close>

text \<open>
  Claim C3, as stated, has the model switched to the vision model whenever an image is
  present, the empty string included. Line 65 tests the truth value of the image: for a
  present but empty image the payload names the text model, and the user turn has no
  \<open>images\<close> member.
\<close>

theorem empty_image_keeps_text_model:
  "request_image empty_image_request = Some [] \<and>
   map (payload_member ''model'') (chat_sent unreachable_backend empty_image_request) =
     [Some (JStr TEXT_MODEL_NAME)] \<and>
   map (payload_member ''model'') (chat_sent unreachable_backend empty_image_request) \<noteq>
     [Some (JStr VISION_MODEL_NAME)] \<and>
   user_message empty_image_request =
     [(''role'', JStr ''user''), (''content'', JStr ''hi'')]"
  by (simp add: chat_sent_eq chat_call_def payload_def payload_member_def current_model_def
      user_message_def select_model_def empty_image_request_def
      TEXT_MODEL_NAME_def VISION_MODEL_NAME_def)

text \<open>
  Claim C3, amended. The model named in the payload is the vision model when the image is
  present and non-empty, and the text model otherwise, that is when the image is absent
  or is the empty string.
\<close>

theorem model_selection:
  "(\<forall>img. request_image request = Some img \<and> img \<noteq> [] \<longrightarrow>
      map (payload_member ''model'') (chat_sent requests_post request) =
        [Some (JStr VISION_MODEL_NAME)]) \<and>
   (request_image request = None \<or> request_image request = Some [] \<longrightarrow>
      map (payload_member ''model'') (chat_sent requests_post request) =
        [Some (JStr TEXT_MODEL_NAME)])"
  by (auto simp add: chat_sent_eq chat_call_def payload_def payload_member_def
      current_model_def select_model_image select_model_no_image)

theorem model_selection_witness:
  "request_image scenario_C = Some ''AAAA'' \<and>
   map (payload_member ''model'') (chat_sent healthy_backend scenario_C) =
     [Some (JStr VISION_MODEL_NAME)] \<and>
   request_image scenario_A = None \<and>
   map (payload_member ''model'') (chat_sent healthy_backend scenario_A) =
     [Some (JStr TEXT_MODEL_NAME)] \<and>
   request_image empty_image_request = Some [] \<and>
   map (payload_member ''model'') (chat_sent healthy_backend empty_image_request) =
     [Some (JStr TEXT_MODEL_NAME)]"
proof -
  have c: "request_image scenario_C = Some ''AAAA''" by (simp add: scenario_C_def)
  have a: "request_image scenario_A = None" by (simp add: scenario_A_def)
  have e: "request_image empty_image_request = Some []"
    by (simp add: empty_image_request_def)
  from model_selection [of scenario_C healthy_backend] c
  have 1: "map (payload_member ''model'') (chat_sent healthy_backend scenario_C) =
     [Some (JStr VISION_MODEL_NAME)]" by simp
  from model_selection [of scenario_A healthy_backend] a
  have 2: "map (payload_member ''model'') (chat_sent healthy_backend scenario_A) =
     [Some (JStr TEXT_MODEL_NAME)]" by simp
  from model_selection [of empty_image_request healthy_backend] e
  have 3: "map (payload_member ''model'') (chat_sent healthy_backend empty_image_request) =
     [Some (JStr TEXT_MODEL_NAME)]" by simp
  from c a e 1 2 3 show ?thesis by simp
qed

subsection \<open>The history is only extended\<close>

text \<open>
  Claim C4. On the paths of the try statement that end at line 92 or at line 96 the
  handler returns, and whatever the backend does, a history returned by the handler is a
  strict extension of the input history: the input history is a proper prefix of it,
  unchanged and in order, followed by the user turn and at most one assistant turn.
\<close>

theorem history_strict_extension:
  "(call_answered (requests_post (chat_call request)) \<or>
    call_failed (requests_post (chat_call request)) \<longrightarrow>
      (\<exists>answer. chat_result requests_post request = Inr answer)) \<and>
   (\<forall>answer. chat_result requests_post request = Inr answer \<longrightarrow>
      strict_prefix (request_history request) (history answer) \<and>
      (history answer = request_history request @ [JObj (user_message request)] \<or>
       (\<exists>assistant_message. history answer =
          request_history request @ [JObj (user_message request), assistant_message])))"
proof (rule conjI)
  show "call_answered (requests_post (chat_call request)) \<or>
    call_failed (requests_post (chat_call request)) \<longrightarrow>
      (\<exists>answer. chat_result requests_post request = Inr answer)"
    by (rule impI) (rule chat_result_returns)
next
  show "\<forall>answer. chat_result requests_post request = Inr answer \<longrightarrow>
      strict_prefix (request_history request) (history answer) \<and>
      (history answer = request_history request @ [JObj (user_message request)] \<or>
       (\<exists>assistant_message. history answer =
          request_history request @ [JObj (user_message request), assistant_message]))"
  proof (intro allI impI)
    fix answer
    assume "chat_result requests_post request = Inr answer"
    from chat_result_history [OF this]
    show "strict_prefix (request_history request) (history answer) \<and>
      (history answer = request_history request @ [JObj (user_message request)] \<or>
       (\<exists>assistant_message. history answer =
          request_history request @ [JObj (user_message request), assistant_message]))"
      by (auto simp add: appended_history_def strict_prefix_def)
  qed
qed

theorem history_strict_extension_witness:
  "request_history follow_up_request =
     [JObj [(''role'', JStr ''user''), (''content'', JStr ''hi'')],
      JObj [(''role'', JStr ''assistant''), (''content'', JStr ''hello'')]] \<and>
   call_answered (healthy_backend (chat_call follow_up_request)) \<and>
   chat_result healthy_backend follow_up_request =
     Inr \<lparr>response = JStr ''hello'',
          history = [JObj [(''role'', JStr ''user''), (''content'', JStr ''hi'')],
                     JObj [(''role'', JStr ''assistant''), (''content'', JStr ''hello'')],
                     JObj [(''role'', JStr ''user''), (''content'', JStr ''again'')],
                     JObj [(''role'', JStr ''assistant''), (''content'', JStr ''hello'')]]\<rparr> \<and>
   strict_prefix
     [JObj [(''role'', JStr ''user''), (''content'', JStr ''hi'')],
      JObj [(''role'', JStr ''assistant''), (''content'', JStr ''hello'')]]
     [JObj [(''role'', JStr ''user''), (''content'', JStr ''hi'')],
      JObj [(''role'', JStr ''assistant''), (''content'', JStr ''hello'')],
      JObj [(''role'', JStr ''user''), (''content'', JStr ''again'')],
      JObj [(''role'', JStr ''assistant''), (''content'', JStr ''hello'')]] \<and>
   call_failed (unreachable_backend (chat_call follow_up_request)) \<and>
   chat_result unreachable_backend follow_up_request =
     Inr \<lparr>response = JStr (APOLOGY @ ''Connection refused''),
          history = [JObj [(''role'', JStr ''user''), (''content'', JStr ''hi'')],
                     JObj [(''role'', JStr ''assistant''), (''content'', JStr ''hello'')],
                     JObj [(''role'', JStr ''user''), (''content'', JStr ''again'')]]\<rparr> \<and>
   strict_prefix
     [JObj [(''role'', JStr ''user''), (''content'', JStr ''hi'')],
      JObj [(''role'', JStr ''assistant''), (''content'', JStr ''hello'')]]
     [JObj [(''role'', JStr ''user''), (''content'', JStr ''hi'')],
      JObj [(''role'', JStr ''assistant''), (''content'', JStr ''hello'')],
      JObj [(''role'', JStr ''user''), (''content'', JStr ''again'')]]"
proof -
  have i: "request_history follow_up_request =
     [JObj [(''role'', JStr ''user''), (''content'', JStr ''hi'')],
      JObj [(''role'', JStr ''assistant''), (''content'', JStr ''hello'')]]"
    by (simp add: follow_up_request_def)
  have s: "call_answered (healthy_backend (chat_call follow_up_request))"
    by (simp add: call_answered_def healthy_backend_def)
  have f: "call_failed (unreachable_backend (chat_call follow_up_request))"
    by (simp add: call_failed_def unreachable_backend_def)
  note a = run_healthy_follow_up
  note b = run_unreachable_follow_up
  note t = history_strict_extension [of healthy_backend follow_up_request]
  note u = history_strict_extension [of unreachable_backend follow_up_request]
  from t [THEN conjunct1] s
  have "\<exists>answer. chat_result healthy_backend follow_up_request = Inr answer" by simp
  from t [THEN conjunct2, THEN spec, THEN mp, OF a]
  have 1: "strict_prefix (request_history follow_up_request)
     [JObj [(''role'', JStr ''user''), (''content'', JStr ''hi'')],
      JObj [(''role'', JStr ''assistant''), (''content'', JStr ''hello'')],
      JObj [(''role'', JStr ''user''), (''content'', JStr ''again'')],
      JObj [(''role'', JStr ''assistant''), (''content'', JStr ''hello'')]]"
    by simp
  from u [THEN conjunct1] f
  have "\<exists>answer. chat_result unreachable_backend follow_up_request = Inr answer" by simp
  from u [THEN conjunct2, THEN spec, THEN mp, OF b]
  have 2: "strict_prefix (request_history follow_up_request)
     [JObj [(''role'', JStr ''user''), (''content'', JStr ''hi'')],
      JObj [(''role'', JStr ''assistant''), (''content'', JStr ''hello'')],
      JObj [(''role'', JStr ''user''), (''content'', JStr ''again'')]]"
    by simp
  from i s f a b 1 2 show ?thesis by simp
qed

subsection \<open>Requests with an image\<close>

text \<open>
  Claim C5. When the image is present and non-empty, the user turn appended to the
  history carries an \<open>images\<close> member equal to the one-element list of the given base64
  string, and the payload sent to the backend holds the selected model name, the whole
  updated history as \<open>messages\<close>, and \<open>stream\<close> set to false.
\<close>

theorem image_request_payload:
  assumes "request_image request = Some img" and "img \<noteq> []"
  shows "user_message request =
           [(''role'', JStr ''user''), (''content'', JStr (request_text request)),
            (''images'', JArr [JStr img])] \<and>
         current_model request = VISION_MODEL_NAME \<and>
         chat_sent requests_post request =
           [(OLLAMA_API_URL,
             JObj [(''model'', JStr (current_model request)),
                   (''messages'',
                    JArr (request_history request @ [JObj (user_message request)])),
                   (''stream'', JBool False)],
             180)]"
  using assms
  by (simp add: chat_sent_eq chat_call_def payload_def appended_history_def
      user_message_image current_model_def select_model_image)

theorem image_request_payload_witness:
  "request_image scenario_C = Some ''AAAA'' \<and> ''AAAA'' \<noteq> [] \<and>
   chat_sent healthy_backend scenario_C =
     [(OLLAMA_API_URL,
       JObj [(''model'', JStr VISION_MODEL_NAME),
             (''messages'',
              JArr [JObj [(''role'', JStr ''user''), (''content'', JStr ''describe''),
                          (''images'', JArr [JStr ''AAAA''])]]),
             (''stream'', JBool False)],
       180)]"
proof -
  have i: "request_image scenario_C = Some ''AAAA''" and n: "''AAAA'' \<noteq> []"
    and t: "request_text scenario_C = ''describe''" "request_history scenario_C = []"
    by (simp_all add: scenario_C_def)
  from image_request_payload [OF i n, of healthy_backend] i n t show ?thesis by simp
qed

subsection \<open>Decoding the answer of the backend\<close>

text \<open>
  Claim C6, as stated, has every successful backend call end with the message appended
  and its content returned. \<open>get\<close> exists on a dict only: when the backend answers 200
  with the body \<open>{"message": "hello"}\<close>, line 92 raises \<open>AttributeError\<close>, which line
  94 does not catch, and the handler returns nothing.
\<close>

theorem string_message_raises:
  "string_message_backend (chat_call scenario_A) =
     Inr \<lparr>status_code = 200, reason = ''OK'', url = OLLAMA_API_URL,
          json_result = Inr (JObj [(''message'', JStr ''hello'')])\<rparr> \<and>
   chat_result string_message_backend scenario_A =
     Inl (AttributeError ([CHR 0x27] @ ''str'' @ [CHR 0x27] @
       '' object has no attribute '' @ [CHR 0x27] @ ''get'' @ [CHR 0x27]))"
  by (simp add: chat_result_def chat_with_axiom_def try_except_def try_block_def
      raise_for_status_def http_error_msg_def string_message_backend_def scenario_A_def
      appended_history_def user_message_def select_model_def dict_get_def no_attribute_def)

text \<open>
  Claim C6, amended. On a successful backend call, a 2xx answer, whose body is a JSON
  object and whose \<open>message\<close> member is absent or a JSON object, the handler takes the
  \<open>message\<close> object of the body, or the empty dict when the body has no \<open>message\<close>,
  appends it to the history, and returns its \<open>content\<close>, or the empty string when it has
  none, with the whole updated history. A body without \<open>message\<close> gives an extension by
  two entries, the second the empty dict, and the empty string as response.
\<close>

theorem success_reply:
  assumes "requests_post (chat_call request) = Inr resp"
    and "200 \<le> status_code resp" and "status_code resp < 300"
    and "json_result resp = Inr (JObj response_json)"
  shows "(\<forall>assistant_message.
            map_of response_json ''message'' = Some (JObj assistant_message) \<longrightarrow>
            chat_result requests_post request =
              Inr \<lparr>response =
                     (case map_of assistant_message ''content'' of
                        Some content \<Rightarrow> content
                      | None \<Rightarrow> JStr []),
                   history = request_history request @
                     [JObj (user_message request), JObj assistant_message]\<rparr>) \<and>
         (map_of response_json ''message'' = None \<longrightarrow>
            chat_result requests_post request =
              Inr \<lparr>response = JStr [],
                   history = request_history request @
                     [JObj (user_message request), JObj []]\<rparr>)"
proof (intro conjI allI impI)
  from assms(2,3) have status: "\<not> (400 \<le> status_code resp \<and> status_code resp < 600)"
    by simp
  fix assistant_message
  assume "map_of response_json ''message'' = Some (JObj assistant_message)"
  then have "dict_get response_json ''message'' (JObj []) = JObj assistant_message"
    by (simp add: dict_get_def)
  from try_except_success [OF assms(1) status assms(4) this, of "appended_history request"]
  show "chat_result requests_post request =
          Inr \<lparr>response =
                 (case map_of assistant_message ''content'' of
                    Some content \<Rightarrow> content
                  | None \<Rightarrow> JStr []),
               history = request_history request @
                 [JObj (user_message request), JObj assistant_message]\<rparr>"
    by (simp add: chat_result_eq appended_history_def dict_get_def)
next
  from assms(2,3) have status: "\<not> (400 \<le> status_code resp \<and> status_code resp < 600)"
    by simp
  assume "map_of response_json ''message'' = None"
  then have "dict_get response_json ''message'' (JObj []) = JObj []"
    by (simp add: dict_get_def)
  from try_except_success [OF assms(1) status assms(4) this, of "appended_history request"]
  show "chat_result requests_post request =
          Inr \<lparr>response = JStr [],
               history = request_history request @
                 [JObj (user_message request), JObj []]\<rparr>"
    by (simp add: chat_result_eq appended_history_def dict_get_def)
qed

theorem success_reply_witness:
  "chat_result healthy_backend scenario_A =
     Inr \<lparr>response = JStr ''hello'',
          history = [JObj [(''role'', JStr ''user''), (''content'', JStr ''hi'')],
                     JObj [(''role'', JStr ''assistant''), (''content'', JStr ''hello'')]]\<rparr> \<and>
   chat_result bare_backend scenario_A =
     Inr \<lparr>response = JStr [],
          history = [JObj [(''role'', JStr ''user''), (''content'', JStr ''hi'')], JObj []]\<rparr>"
proof -
  have a: "healthy_backend (chat_call scenario_A) =
      Inr \<lparr>status_code = 200, reason = ''OK'', url = OLLAMA_API_URL,
           json_result = Inr (JObj [(''message'',
             JObj [(''role'', JStr ''assistant''), (''content'', JStr ''hello'')])])\<rparr>"
    by (simp add: healthy_backend_def)
  have b: "bare_backend (chat_call scenario_A) =
      Inr \<lparr>status_code = 200, reason = ''OK'', url = OLLAMA_API_URL,
           json_result = Inr (JObj [])\<rparr>"
    by (simp add: bare_backend_def)
  from success_reply [where requests_post = healthy_backend and request = scenario_A, OF a]
  have 1: "chat_result healthy_backend scenario_A =
     Inr \<lparr>response = JStr ''hello'',
          history = [JObj [(''role'', JStr ''user''), (''content'', JStr ''hi'')],
                     JObj [(''role'', JStr ''assistant''), (''content'', JStr ''hello'')]]\<rparr>"
    by (simp add: scenario_A_fields)
  from success_reply [where requests_post = bare_backend and request = scenario_A, OF b]
  have 2: "chat_result bare_backend scenario_A =
     Inr \<lparr>response = JStr [],
          history = [JObj [(''role'', JStr ''user''), (''content'', JStr ''hi'')], JObj []]\<rparr>"
    by (simp add: scenario_A_fields)
  from 1 2 show ?thesis by simp
qed

subsection \<open>The root route\<close>

text \<open>
  Claim C8. When no \<open>index.html\<close> is present, GET / returns an HTML response holding the
  not-found notice of line 50, a heading saying in French that the file index.html was
  not found, with status 200; when the file is present, it serves that file.
\<close>

theorem root_route:
  "(\<not> exists ''index.html'' \<longrightarrow>
      body (get_root exists) =
        Html (''<h1>Fichier index.html non trouv'' @ [CHR 0xC3, CHR 0xA9] @ ''.</h1>'') \<and>
      http_status (get_root exists) = 200) \<and>
   (exists ''index.html'' \<longrightarrow>
      get_root exists = FileResponse ''index.html'' \<and>
      body (get_root exists) = File ''index.html'')"
  by (simp add: get_root_def HTMLResponse_def FileResponse_def NOT_FOUND_NOTICE_def)

theorem root_route_witness:
  "\<not> no_files ''index.html'' \<and>
   body (get_root no_files) =
     Html (''<h1>Fichier index.html non trouv'' @ [CHR 0xC3, CHR 0xA9] @ ''.</h1>'') \<and>
   http_status (get_root no_files) = 200 \<and>
   only_index ''index.html'' \<and>
   body (get_root only_index) = File ''index.html''"
proof -
  have n: "\<not> no_files ''index.html''" by (simp add: no_files_def)
  have p: "only_index ''index.html''" by (simp add: only_index_def)
  from root_route [of no_files] root_route [of only_index] n p show ?thesis by blast
qed

subsection \<open>The image is echoed back\<close>

text \<open>
  Claim C10. When the image is present and non-empty, the handler returns on the success
  path and on the failure path, and every history it returns holds the user turn with
  its \<open>images\<close> member, the base64 string included, right after the input history.
\<close>

theorem image_echoed_back:
  assumes "request_image request = Some img" and "img \<noteq> []"
  shows "(call_answered (requests_post (chat_call request)) \<or>
          call_failed (requests_post (chat_call request)) \<longrightarrow>
            (\<exists>answer. chat_result requests_post request = Inr answer)) \<and>
         (\<forall>answer. chat_result requests_post request = Inr answer \<longrightarrow>
            length (request_history request) < length (history answer) \<and>
            history answer ! length (request_history request) =
              JObj [(''role'', JStr ''user''), (''content'', JStr (request_text request)),
                    (''images'', JArr [JStr img])])"
proof (rule conjI)
  show "call_answered (requests_post (chat_call request)) \<or>
    call_failed (requests_post (chat_call request)) \<longrightarrow>
      (\<exists>answer. chat_result requests_post request = Inr answer)"
    by (rule impI) (rule chat_result_returns)
next
  show "\<forall>answer. chat_result requests_post request = Inr answer \<longrightarrow>
      length (request_history request) < length (history answer) \<and>
      history answer ! length (request_history request) =
        JObj [(''role'', JStr ''user''), (''content'', JStr (request_text request)),
              (''images'', JArr [JStr img])]"
  proof (intro allI impI)
    fix answer
    assume "chat_result requests_post request = Inr answer"
    from chat_result_history [OF this]
    show "length (request_history request) < length (history answer) \<and>
      history answer ! length (request_history request) =
        JObj [(''role'', JStr ''user''), (''content'', JStr (request_text request)),
              (''images'', JArr [JStr img])]"
      by (auto simp add: appended_history_def user_message_image [OF assms] nth_append)
  qed
qed

theorem image_echoed_back_witness:
  "request_image scenario_C = Some ''AAAA'' \<and> ''AAAA'' \<noteq> [] \<and>
   call_answered (healthy_backend (chat_call scenario_C)) \<and>
   chat_result healthy_backend scenario_C =
     Inr \<lparr>response = JStr ''hello'',
          history = [JObj [(''role'', JStr ''user''), (''content'', JStr ''describe''),
                           (''images'', JArr [JStr ''AAAA''])],
                     JObj [(''role'', JStr ''assistant''), (''content'', JStr ''hello'')]]\<rparr> \<and>
   call_failed (unreachable_backend (chat_call scenario_C)) \<and>
   chat_result unreachable_backend scenario_C =
     Inr \<lparr>response = JStr (APOLOGY @ ''Connection refused''),
          history = [JObj [(''role'', JStr ''user''), (''content'', JStr ''describe''),
                           (''images'', JArr [JStr ''AAAA''])]]\<rparr> \<and>
   [JObj [(''role'', JStr ''user''), (''content'', JStr ''describe''),
          (''images'', JArr [JStr ''AAAA''])],
    JObj [(''role'', JStr ''assistant''), (''content'', JStr ''hello'')]] !
     length (request_history scenario_C) =
   JObj [(''role'', JStr ''user''), (''content'', JStr (request_text scenario_C)),
         (''images'', JArr [JStr ''AAAA''])]"
proof -
  have i: "request_image scenario_C = Some ''AAAA''" and n: "''AAAA'' \<noteq> []"
    and t: "request_text scenario_C = ''describe''" "request_history scenario_C = []"
    by (simp_all add: scenario_C_def)
  have s: "call_answered (healthy_backend (chat_call scenario_C))"
    by (simp add: call_answered_def healthy_backend_def)
  have f: "call_failed (unreachable_backend (chat_call scenario_C))"
    by (simp add: call_failed_def unreachable_backend_def)
  note a = run_healthy_C
  note b = run_unreachable_C
  from image_echoed_back [OF i n, of healthy_backend] a t
  have 1: "[JObj [(''role'', JStr ''user''), (''content'', JStr ''describe''),
          (''images'', JArr [JStr ''AAAA''])],
    JObj [(''role'', JStr ''assistant''), (''content'', JStr ''hello'')]] !
     length (request_history scenario_C) =
   JObj [(''role'', JStr ''user''), (''content'', JStr (request_text scenario_C)),
         (''images'', JArr [JStr ''AAAA''])]"
    by simp
  from image_echoed_back [OF i n, of unreachable_backend] b t
  have 2: "[JObj [(''role'', JStr ''user''), (''content'', JStr ''describe''),
          (''images'', JArr [JStr ''AAAA''])]] !
     length (request_history scenario_C) =
   JObj [(''role'', JStr ''user''), (''content'', JStr (request_text scenario_C)),
         (''images'', JArr [JStr ''AAAA''])]"
    by simp
  from i n s f a b 1 2 show ?thesis by simp
qed

end
